theory Spec2Isabelle
  imports Main
begin

section \<open>The HyperMapper C++ client: model of cpp\_client.cpp\<close>

text \<open>
  The client describes two integer parameters, writes a scenario file, launches the
  optimizer as a child process and answers its requests line by line. The model below
  follows \<^verbatim>\<open>cpp_client.cpp\<close> function by function. Process exits, uncaught C++
  exceptions and undefined behaviour are values of the type \<open>error\<close>; the heap objects
  that \<^verbatim>\<open>InParams\<close> points to are a list, and a pointer to one of them is its index.
\<close>

subsection \<open>Errors\<close>

text \<open>
  \<^verbatim>\<open>fatalError(msg)\<close> writes \<^verbatim>\<open>FATAL: msg\<close> to the error stream and calls
  \<^verbatim>\<open>exit(EXIT_FAILURE)\<close>: the value \<open>Fatal msg\<close>. An exception that nothing catches
  ends the process through \<^verbatim>\<open>std::terminate\<close>: \<open>Uncaught\<close>. Behaviour that C++ leaves
  undefined is \<open>Undefined\<close>.
\<close>

datatype exn = InvalidArgument | OutOfRange | DomainViolation | FilesystemError

datatype ub = SignedOverflow | IndexOutOfBounds | NullPointer | BadDescriptor

datatype error = Fatal string | Uncaught exn | Undefined ub

definition fatalError :: "string \<Rightarrow> error + 'a" where
  "fatalError msg = Inl (Fatal msg)"

subsection \<open>Parameters and objectives (cpp\_client.h)\<close>

text \<open>
  Modelled from the spec: the types of \<^verbatim>\<open>cpp_client.h\<close>, which is not among the sources.
  \<open>ParamType\<close> is the spec's kind of a parameter. \<open>HMInputParam\<close> is the spec's Parameter
  (key, kind, domain, current value), its fields named after the accessors the client
  calls. \<open>HMObjective\<close> is the spec's result of an evaluation, with the three fields the
  client writes and prints; the client computes the two objectives as \<^verbatim>\<open>int\<close>s and prints
  them with \<^verbatim>\<open>std::to_string\<close>, and they are integers here.
\<close>

datatype ParamType = Real | Integer | Ordinal | Categorical

record HMInputParam =
  getKey :: string
  getType :: ParamType
  getRange :: "int list"
  getVal :: int

record HMObjective =
  f1_value :: int
  f2_value :: int
  valid :: bool

text \<open>
  Modelled from the spec: the constructor of \<^verbatim>\<open>HMInputParam\<close> and \<^verbatim>\<open>setRange\<close> (in
  \<^verbatim>\<open>cpp_client.h\<close>), which create a parameter with a key and a kind and give it its
  domain. The client passes \<^verbatim>\<open>x0\<close> and \<^verbatim>\<open>x1\<close>; these are also the keys that numbering
  the parameters from the static counter (line 345) would give. The sources do not say
  what the value slot holds before the first assignment, so its first content \<open>v\<close> is an
  argument.
\<close>

definition new_HMInputParam :: "string \<Rightarrow> ParamType \<Rightarrow> int \<Rightarrow> HMInputParam" where
  "new_HMInputParam k t v = \<lparr>getKey = k, getType = t, getRange = [], getVal = v\<rparr>"

definition setRange :: "HMInputParam \<Rightarrow> int list \<Rightarrow> HMInputParam" where
  "setRange p r = p\<lparr>getRange := r\<rparr>"

text \<open>
  Modelled from the spec: \<^verbatim>\<open>HMInputParam::setVal\<close> (in \<^verbatim>\<open>cpp_client.h\<close>). The spec:
  "\<^verbatim>\<open>setValue(x)\<close> fails with \<^verbatim>\<open>DomainViolation\<close> if \<^verbatim>\<open>x\<close> is outside \<^verbatim>\<open>domain\<close>", where
  the domain is "for Real/Integer, a closed numeric interval \<^verbatim>\<open>[lo, hi]\<close>; for
  Ordinal/Categorical, an ordered list of admissible discrete values". The client stores
  the interval of an Integer parameter as the two-element range \<^verbatim>\<open>{lo, hi}\<close>.
\<close>

definition in_domain :: "HMInputParam \<Rightarrow> int \<Rightarrow> bool" where
  "in_domain p x =
     (if getType p = Real \<or> getType p = Integer
      then (case getRange p of [lo, hi] \<Rightarrow> lo \<le> x \<and> x \<le> hi | _ \<Rightarrow> False)
      else List.member (getRange p) x)"

definition setVal :: "HMInputParam \<Rightarrow> int \<Rightarrow> error + HMInputParam" where
  "setVal p x = (if in_domain p x then Inr (p\<lparr>getVal := x\<rparr>) else Inl (Uncaught DomainViolation))"

text \<open>
  Modelled from the spec: \<^verbatim>\<open>HMInputParam::operator==(string)\<close> (in \<^verbatim>\<open>cpp_client.h\<close>),
  the test \<^verbatim>\<open>findByKey\<close> applies: a parameter matches the key it carries.
\<close>

definition param_eq :: "HMInputParam \<Rightarrow> string \<Rightarrow> bool" where
  "param_eq p k = (getKey p = k)"

subsection \<open>The reference objective: \<^verbatim>\<open>calculateObjective\<close>\<close>

text \<open>
  \<^verbatim>\<open>x1\<close>, \<^verbatim>\<open>x2\<close> and the objective fields are C++ \<^verbatim>\<open>int\<close>s (32 bits). Signed overflow
  is undefined in C++: the model computes on \<open>int\<close> and returns \<open>Undefined SignedOverflow\<close>
  as soon as a value the code computes leaves the 32-bit range. An index beyond the vector
  is undefined as well.
\<close>

definition INT_MIN :: int where "INT_MIN = - 2147483648"
definition INT_MAX :: int where "INT_MAX = 2147483647"

definition fits_int :: "int \<Rightarrow> bool" where
  "fits_int v = (INT_MIN \<le> v \<and> v \<le> INT_MAX)"

text \<open>Every value the four statements of \<^verbatim>\<open>calculateObjective\<close> compute, in order.\<close>

definition objective_terms :: "int \<Rightarrow> int \<Rightarrow> int list" where
  "objective_terms x1 x2 =
     [x1 - 2, (x1 - 2) * (x1 - 2), 2 + (x1 - 2) * (x1 - 2),
      x2 - 1, (x2 - 1) * (x2 - 1), 2 + (x1 - 2) * (x1 - 2) + (x2 - 1) * (x2 - 1),
      9 * x1, 9 * x1 - (x2 - 1) * (x2 - 1),
      x1 * x1, x2 * x2, x1 * x1 + x2 * x2,
      3 * x2, x1 - 3 * x2, x1 - 3 * x2 + 10]"

definition calculateObjective :: "HMInputParam list \<Rightarrow> error + HMObjective" where
  "calculateObjective InputParams =
     (if length InputParams < 2 then Inl (Undefined IndexOutOfBounds)
      else
        let x1 = getVal (InputParams ! 0);
            x2 = getVal (InputParams ! 1)
        in if list_all fits_int (objective_terms x1 x2)
           then
             let c1 = (x1 * x1 + x2 * x2 \<le> 255);
                 c2 = (x1 - 3 * x2 + 10 \<le> 0)
             in Inr \<lparr>f1_value = 2 + (x1 - 2) * (x1 - 2) + (x2 - 1) * (x2 - 1),
                     f2_value = 9 * x1 - (x2 - 1) * (x2 - 1),
                     valid = (c1 \<and> c2)\<rparr>
           else Inl (Undefined SignedOverflow))"

text \<open>\<^verbatim>\<open>collectInputParams\<close>: two Integer parameters \<^verbatim>\<open>x0\<close>, \<^verbatim>\<open>x1\<close> with range
  \<^verbatim>\<open>{-20, 20}\<close>; the result is the vector and the count.\<close>

definition collectInputParams :: "int \<Rightarrow> int \<Rightarrow> HMInputParam list \<times> nat" where
  "collectInputParams v0 v1 =
     (let Range = [- 20, 20];
          x0Param = setRange (new_HMInputParam ''x0'' Integer v0) Range;
          x1Param = setRange (new_HMInputParam ''x1'' Integer v1) Range
      in ([x0Param, x1Param], 2))"

subsection \<open>The C and C++ library functions the client calls\<close>

abbreviation NL :: char where "NL \<equiv> CHR 0x0A"

abbreviation NUL :: char where "NUL \<equiv> CHR 0x00"

text \<open>
  \<^verbatim>\<open>std::string::find\<close> and \<^verbatim>\<open>find_first_of\<close> return a \<^verbatim>\<open>size_t\<close>: the index of the first
  match at or after \<open>pos\<close>, or \<^verbatim>\<open>npos\<close> (the largest \<^verbatim>\<open>size_t\<close>) when there is none. Here
  \<^verbatim>\<open>npos\<close> is \<open>None\<close>.
\<close>

fun first_index :: "(char \<Rightarrow> bool) \<Rightarrow> string \<Rightarrow> nat option" where
  "first_index P [] = None"
| "first_index P (c # cs) = (if P c then Some 0 else map_option Suc (first_index P cs))"

definition find_first_of :: "string \<Rightarrow> string \<Rightarrow> nat \<Rightarrow> nat option" where
  "find_first_of s chars pos =
     map_option (\<lambda>i. pos + i) (first_index (\<lambda>c. c \<in> set chars) (drop pos s))"

definition find_char :: "string \<Rightarrow> char \<Rightarrow> nat option" where
  "find_char s c = find_first_of s [c] 0"

text \<open>
  The client computes with these results in \<^verbatim>\<open>size_t\<close> arithmetic, which wraps around:
  \<^verbatim>\<open>r + 1\<close> is \<open>0\<close> when \<^verbatim>\<open>r\<close> is \<^verbatim>\<open>npos\<close>, and \<^verbatim>\<open>r - pos\<close> is then \<^verbatim>\<open>npos - pos\<close>, a
  length no string reaches, so that \<^verbatim>\<open>substr\<close> takes all that is left (\<open>None\<close> as a length).
\<close>

definition size_plus1 :: "nat option \<Rightarrow> nat" where
  "size_plus1 r = (case r of None \<Rightarrow> 0 | Some i \<Rightarrow> i + 1)"

definition size_minus :: "nat option \<Rightarrow> nat \<Rightarrow> nat option" where
  "size_minus r pos = (case r of None \<Rightarrow> None | Some i \<Rightarrow> Some (i - pos))"

text \<open>\<^verbatim>\<open>s.substr(pos, len)\<close> throws \<^verbatim>\<open>std::out_of_range\<close> when \<open>pos\<close> is beyond the end.\<close>

definition substr :: "string \<Rightarrow> nat \<Rightarrow> nat option \<Rightarrow> error + string" where
  "substr s pos len =
     (if length s < pos then Inl (Uncaught OutOfRange)
      else Inr (case len of None \<Rightarrow> drop pos s | Some n \<Rightarrow> take n (drop pos s)))"

text \<open>
  \<^verbatim>\<open>std::stoi\<close>: skips leading white space, reads an optional sign and the longest run
  of decimal digits, and ignores what follows. It throws \<^verbatim>\<open>std::invalid_argument\<close> when
  there is no digit and \<^verbatim>\<open>std::out_of_range\<close> when the number is not an \<^verbatim>\<open>int\<close>.
\<close>

definition isspace :: "char \<Rightarrow> bool" where
  "isspace c = (c \<in> set [CHR 0x20, CHR 0x09, CHR 0x0A, CHR 0x0B, CHR 0x0C, CHR 0x0D])"

definition isdigit :: "char \<Rightarrow> bool" where
  "isdigit c = (c \<in> set ''0123456789'')"

definition digit_value :: "char \<Rightarrow> nat" where
  "digit_value c = (case first_index (\<lambda>d. d = c) ''0123456789'' of None \<Rightarrow> 0 | Some i \<Rightarrow> i)"

fun decimal :: "nat \<Rightarrow> string \<Rightarrow> nat" where
  "decimal acc [] = acc"
| "decimal acc (c # cs) = decimal (acc * 10 + digit_value c) cs"

definition stoi :: "string \<Rightarrow> error + int" where
  "stoi str =
     (let s1 = dropWhile isspace str;
          neg = (s1 \<noteq> [] \<and> hd s1 = CHR ''-'');
          s2 = (if s1 \<noteq> [] \<and> (hd s1 = CHR ''-'' \<or> hd s1 = CHR ''+'') then tl s1 else s1);
          ds = takeWhile isdigit s2
      in if ds = [] then Inl (Uncaught InvalidArgument)
         else
           let v = (if neg then - int (decimal 0 ds) else int (decimal 0 ds))
           in if fits_int v then Inr v else Inl (Uncaught OutOfRange))"

text \<open>\<^verbatim>\<open>std::to_string\<close> of an \<^verbatim>\<open>int\<close>; a \<^verbatim>\<open>bool\<close> is promoted to \<open>0\<close> or \<open>1\<close> first.\<close>

fun to_string_nat :: "nat \<Rightarrow> string" where
  "to_string_nat n =
     (if n < 10 then [''0123456789'' ! n]
      else to_string_nat (n div 10) @ [''0123456789'' ! (n mod 10)])"

declare to_string_nat.simps [simp del]

definition to_string :: "int \<Rightarrow> string" where
  "to_string v = (if v < 0 then CHR ''-'' # to_string_nat (nat (- v)) else to_string_nat (nat v))"

definition to_string_bool :: "bool \<Rightarrow> string" where
  "to_string_bool b = to_string (if b then 1 else 0)"

subsection \<open>The session with the optimizer\<close>

text \<open>
  What the protocol loop reads and changes: the bytes the optimizer writes to its output
  and the client has not read yet (\<open>instream\<close>: all of them, up to the last the optimizer
  ever writes), the characters in \<^verbatim>\<open>buffer\<close> before its terminating NUL, the parameter
  objects, and two logs: the argument of every call of \<^verbatim>\<open>calculateObjective\<close> (the
  current values, in declaration order) and every response written and flushed to the
  optimizer.
\<close>

record run =
  instream :: string
  buffer :: string
  InParams :: "HMInputParam list"
  calls :: "int list list"
  outstream :: "string list"

definition max_buffer :: nat where "max_buffer = 1000"

text \<open>The first line of a text, with its newline when it has one.\<close>

definition first_line :: "string \<Rightarrow> string" where
  "first_line s =
     (case dropWhile (\<lambda>c. c \<noteq> NL) s of [] \<Rightarrow> s | _ \<Rightarrow> takeWhile (\<lambda>c. c \<noteq> NL) s @ [NL])"

text \<open>
  \<^verbatim>\<open>fgets(buffer, max_buffer, instream)\<close> reads up to the newline, at most
  \<^verbatim>\<open>max_buffer - 1\<close> characters, and returns when it has the newline or that many
  characters, or at the end of the stream. The client never sees the end of this stream:
  \<^verbatim>\<open>popen2\<close> leaves the parent's own descriptor \<^verbatim>\<open>pipe_stdout[1]\<close> for the writing end
  of the pipe open (lines 55 to 58 close nothing), so that the pipe keeps a writer when
  the optimizer has closed its output or has ended. A read that finds neither a newline
  nor \<^verbatim>\<open>max_buffer - 1\<close> characters therefore blocks for ever: \<open>fgets\<close> is \<open>None\<close> there,
  as is every function below when a read in it does not return.
\<close>

definition line_ready :: "string \<Rightarrow> bool" where
  "line_ready bytes =
     (NL \<in> set (take (max_buffer - 1) bytes) \<or> max_buffer - 1 \<le> length bytes)"

definition fgets :: "run \<Rightarrow> run option" where
  "fgets s =
     (if line_ready (instream s)
      then
        let l = take (max_buffer - 1) (first_line (instream s))
        in Some (s\<lparr>instream := drop (length l) (instream s), buffer := l\<rparr>)
      else None)"

text \<open>\<^verbatim>\<open>string bufferStr(buffer)\<close>: the characters before the first NUL.\<close>

definition bufferStr :: "run \<Rightarrow> string" where
  "bufferStr s = takeWhile (\<lambda>c. c \<noteq> NUL) (buffer s)"

subsection \<open>\<^verbatim>\<open>findHMParamByKey\<close>\<close>

text \<open>
  A linear scan that returns the iterator of the first parameter matching the key:
  its index here, and the length of the vector for \<^verbatim>\<open>InParams.end()\<close>.
\<close>

fun findHMParamByKey :: "HMInputParam list \<Rightarrow> string \<Rightarrow> nat" where
  "findHMParamByKey [] Key = 0"
| "findHMParamByKey (Param # rest) Key =
     (if param_eq Param Key then 0 else Suc (findHMParamByKey rest Key))"

subsection \<open>The protocol loop of \<^verbatim>\<open>main\<close>\<close>

text \<open>The settings \<^verbatim>\<open>main\<close> fixes before the loop and the loop reads.\<close>

record settings =
  numParams :: nat
  Objectives :: "string list"
  Predictor :: bool

text \<open>
  The loop over the parameter-name header (lines 280 to 293). The first argument counts
  the iterations left, \<^verbatim>\<open>numParams - param\<close>. \<open>InputParamsMap\<close> maps a column to a
  pointer into \<^verbatim>\<open>InParams\<close>.
\<close>

fun header_loop ::
  "nat \<Rightarrow> nat \<Rightarrow> HMInputParam list \<Rightarrow> string \<Rightarrow> nat \<Rightarrow> (nat \<rightharpoonup> nat) \<Rightarrow> string
     \<Rightarrow> error + ((nat \<rightharpoonup> nat) \<times> string)" where
  "header_loop 0 param Params line pos InputParamsMap response = Inr (InputParamsMap, response)"
| "header_loop (Suc n) param Params line pos InputParamsMap response =
     (let r = find_first_of line '',\<newline>'' pos
      in case substr line pos (size_minus r pos) of
           Inl e \<Rightarrow> Inl e
         | Inr ParamStr \<Rightarrow>
             let paramIt = findHMParamByKey Params ParamStr
             in if paramIt \<noteq> length Params
                then header_loop n (Suc param) Params line (size_plus1 r)
                       (InputParamsMap(param \<mapsto> paramIt)) (response @ ParamStr @ '','')
                else fatalError ''Unknown parameter received!'')"

text \<open>
  The loop over the values of one candidate row (lines 306 to 313). \<^verbatim>\<open>std::map\<close>'s
  \<^verbatim>\<open>operator[]\<close> yields a null pointer for a column the header loop did not enter; so
  does, here, an index that is not one of the vector. The argument \<^verbatim>\<open>stoi(ParamValStr)\<close>
  is evaluated before \<^verbatim>\<open>setVal\<close> is entered.
\<close>

fun row_loop ::
  "nat \<Rightarrow> nat \<Rightarrow> (nat \<rightharpoonup> nat) \<Rightarrow> string \<Rightarrow> nat \<Rightarrow> HMInputParam list \<Rightarrow> string
     \<Rightarrow> error + (HMInputParam list \<times> string)" where
  "row_loop 0 param InputParamsMap line pos Params response = Inr (Params, response)"
| "row_loop (Suc n) param InputParamsMap line pos Params response =
     (let r = find_first_of line '',\<newline>'' pos
      in case substr line pos (size_minus r pos) of
           Inl e \<Rightarrow> Inl e
         | Inr ParamValStr \<Rightarrow>
             (case stoi ParamValStr of
                Inl e \<Rightarrow> Inl e
              | Inr v \<Rightarrow>
                  (case InputParamsMap param of
                     None \<Rightarrow> Inl (Undefined NullPointer)
                   | Some i \<Rightarrow>
                       if length Params \<le> i then Inl (Undefined NullPointer)
                       else
                         (case setVal (Params ! i) v of
                            Inl e \<Rightarrow> Inl e
                          | Inr p \<Rightarrow>
                              row_loop n (Suc param) InputParamsMap line (size_plus1 r)
                                (Params[i := p]) (response @ ParamValStr @ '','')))))"

text \<open>
  The loop over the requests of a batch (lines 300 to 321). Each round reads a line,
  assigns its values, calls \<^verbatim>\<open>calculateObjective\<close> (logged in \<open>calls\<close>) and appends the
  row to the response. When a round fails the process ends there; what the failed row
  had assigned before is not kept, as nothing reads it any more. When the read of a
  round does not return, neither does the loop.
\<close>

fun requests ::
  "nat \<Rightarrow> nat \<Rightarrow> (nat \<rightharpoonup> nat) \<Rightarrow> string \<Rightarrow> run \<Rightarrow> ((error + string) \<times> run) option" where
  "requests 0 nParams InputParamsMap response s = Some (Inr response, s)"
| "requests (Suc n) nParams InputParamsMap response s =
     (case fgets s of
        None \<Rightarrow> None
      | Some s1 \<Rightarrow>
          (case row_loop nParams 0 InputParamsMap (bufferStr s1) 0 (InParams s1) response of
             Inl e \<Rightarrow> Some (Inl e, s1)
           | Inr (Params, response1) \<Rightarrow>
               let s2 = s1\<lparr>InParams := Params, calls := calls s1 @ [map getVal Params]\<rparr>
               in (case calculateObjective Params of
                     Inl e \<Rightarrow> Some (Inl e, s2)
                   | Inr Obj \<Rightarrow>
                       requests n nParams InputParamsMap
                         (response1 @ to_string (f1_value Obj) @ '','' @
                          to_string (f2_value Obj) @ '','' @
                          to_string_bool (valid Obj) @ ''\<newline>'') s2)))"

text \<open>The header line of the response (lines 294 to 298).\<close>

definition header_tail :: "settings \<Rightarrow> string" where
  "header_tail c =
     concat (map (\<lambda>objString. objString @ '','') (Objectives c)) @
     (if Predictor c then ''Valid'' else []) @ ''\<newline>''"

text \<open>
  One round of \<^verbatim>\<open>while (true)\<close> (lines 260 to 326): \<open>Break\<close> when the sentinel arrives,
  \<open>Continue\<close> after a response, \<open>Abort\<close> when the process ends in the round, and \<open>None\<close>
  when a read of the round blocks for ever. A negative request count runs the request
  loop zero times.
\<close>

datatype step = Break run | Continue run | Abort error run

definition request_count :: "string \<Rightarrow> error + int" where
  "request_count line =
     (case substr line (size_plus1 (find_char line CHR '' '')) None of
        Inl e \<Rightarrow> Inl e
      | Inr NumReqStr \<Rightarrow> stoi NumReqStr)"

definition iteration :: "settings \<Rightarrow> run \<Rightarrow> step option" where
  "iteration c s =
     (case fgets s of
        None \<Rightarrow> None
      | Some s1 \<Rightarrow>
          if bufferStr s1 = ''End of HyperMapper\<newline>'' then Some (Break s1)
          else
            (case request_count (bufferStr s1) of
               Inl e \<Rightarrow> Some (Abort e s1)
             | Inr numRequests \<Rightarrow>
                 (case fgets s1 of
                    None \<Rightarrow> None
                  | Some s2 \<Rightarrow>
                      (case header_loop (numParams c) 0 (InParams s2) (bufferStr s2) 0
                              Map.empty [] of
                         Inl e \<Rightarrow> Some (Abort e s2)
                       | Inr (InputParamsMap, response) \<Rightarrow>
                           (case requests (nat numRequests) (numParams c) InputParamsMap
                                   (response @ header_tail c) s2 of
                              None \<Rightarrow> None
                            | Some (Inl e, s3) \<Rightarrow> Some (Abort e s3)
                            | Some (Inr response', s3) \<Rightarrow>
                                Some (Continue (s3\<lparr>outstream := outstream s3 @ [response']\<rparr>)))))))"

text \<open>
  The loop itself, with fuel for its rounds: \<open>None\<close> when a round does not return or when
  the rounds allowed are used up before the loop has ended.
\<close>

datatype outcome = Completed | Failed error

fun hm_loop :: "nat \<Rightarrow> settings \<Rightarrow> run \<Rightarrow> (outcome \<times> run) option" where
  "hm_loop 0 c s = None"
| "hm_loop (Suc fuel) c s =
     (case iteration c s of
        None \<Rightarrow> None
      | Some (Break s') \<Rightarrow> Some (Completed, s')
      | Some (Abort e s') \<Rightarrow> Some (Failed e, s')
      | Some (Continue s') \<Rightarrow> hm_loop fuel c s')"

subsection \<open>The scenario file: \<^verbatim>\<open>createjson\<close>\<close>

text \<open>
  A JSON value of the library \<^verbatim>\<open>nlohmann::json\<close>. An object is a list of members with
  distinct names. \<open>at_key\<close> and \<open>set_key\<close> are the two uses of \<^verbatim>\<open>operator[]\<close> with a
  name: reading a member (null when there is none) and assigning one, which turns a null
  value into an object first. \<^verbatim>\<open>createjson\<close> indexes null values and objects only.
\<close>

datatype json =
  JNull | JBool bool | JInt int | JString string | JArray "json list"
  | JObject "(string \<times> json) list"

fun put :: "string \<Rightarrow> json \<Rightarrow> (string \<times> json) list \<Rightarrow> (string \<times> json) list" where
  "put k v [] = [(k, v)]"
| "put k v ((k', v') # kvs) = (if k = k' then (k, v) # kvs else (k', v') # put k v kvs)"

definition at_key :: "json \<Rightarrow> string \<Rightarrow> json" where
  "at_key j k =
     (case j of
        JObject kvs \<Rightarrow> (case map_of kvs k of None \<Rightarrow> JNull | Some v \<Rightarrow> v)
      | _ \<Rightarrow> JNull)"

definition set_key :: "json \<Rightarrow> string \<Rightarrow> json \<Rightarrow> json" where
  "set_key j k v = (case j of JObject kvs \<Rightarrow> JObject (put k v kvs) | _ \<Rightarrow> JObject [(k, v)])"

text \<open>
  What the process finds around it: the environment, the file system as far as the
  client asks it, whether \<^verbatim>\<open>pipe\<close> and \<^verbatim>\<open>fork\<close> succeed, every byte the optimizer
  ever writes to its output, and the contents of memory the client has not written (the
  line buffer and the two value slots).

  \<^verbatim>\<open>fs::create_directory\<close> returns true when it has created the directory, returns
  false when it has not because the directory is there already, and throws
  \<^verbatim>\<open>filesystem_error\<close> when the directory cannot be created; nothing catches the
  exception. \<^verbatim>\<open>fs::current_path\<close> and \<^verbatim>\<open>fs::exists\<close> are taken to return.
\<close>

datatype created = Created | NotCreated | CreateThrows

record world =
  getenv :: "string \<rightharpoonup> string"
  current_path :: string
  dir_exists :: bool
  create_directory :: created
  file_opens :: bool
  pipe_ok :: bool
  fork_ok :: bool
  child_stdout :: string
  stale_buffer :: string
  stale_x0 :: int
  stale_x1 :: int

text \<open>
  The loop of \<^verbatim>\<open>createjson\<close> over the parameters (lines 120 to 134): it adds each to
  \<^verbatim>\<open>HMScenario["input_parameters"]\<close>. \<^verbatim>\<open>getTypeAsString\<close> is declared in
  \<^verbatim>\<open>cpp_client.h\<close> and is an argument here.
\<close>

fun input_parameters :: "(ParamType \<Rightarrow> string) \<Rightarrow> HMInputParam list \<Rightarrow> json \<Rightarrow> error + json" where
  "input_parameters getTypeAsString [] HMScenario = Inr HMScenario"
| "input_parameters getTypeAsString (InParam # rest) HMScenario =
     (let HMParam = set_key JNull ''parameter_type'' (JString (getTypeAsString (getType InParam)))
      in case getType InParam of
           Real \<Rightarrow> fatalError ''Only Ordinal and Categorical handled!''
         | _ \<Rightarrow>
             input_parameters getTypeAsString rest
               (set_key HMScenario ''input_parameters''
                  (set_key (at_key HMScenario ''input_parameters'') (getKey InParam)
                     (set_key HMParam ''values'' (JArray (map JInt (getRange InParam)))))))"

text \<open>
  The members \<^verbatim>\<open>createjson\<close> sets before that loop (lines 90 to 118), in its order.
  \<open>Pred\<close> and \<open>Objs\<close> are its arguments \<^verbatim>\<open>Predictor\<close> and \<^verbatim>\<open>Objectives\<close>.
\<close>

definition scenario_head ::
  "string \<Rightarrow> string \<Rightarrow> string \<Rightarrow> int \<Rightarrow> int \<Rightarrow> bool \<Rightarrow> string list \<Rightarrow> json" where
  "scenario_head CurrentDir AppName OutputFoldername NumIterations NumDSERandomSamples
       Pred Objs =
     (let j = set_key JNull ''application_name'' (JString AppName);
          j = set_key j ''optimization_objectives'' (JArray (map JString Objs));
          j = set_key j ''hypermapper_mode'' (set_key JNull ''mode'' (JString ''client-server''));
          j = set_key j ''run_directory'' (JString CurrentDir);
          j = set_key j ''log_file'' (JString (OutputFoldername @ ''/log_'' @ AppName @ ''.log''));
          j = set_key j ''optimization_iterations'' (JInt NumIterations);
          j = set_key j ''models'' (set_key JNull ''model'' (JString ''random_forest''));
          j = (if Pred
               then set_key j ''feasible_output''
                      (set_key (set_key (set_key JNull ''enable_feasible_predictor'' (JBool True))
                          ''false_value'' (JString ''0'')) ''true_value'' (JString ''1''))
               else j);
          j = set_key j ''output_data_file''
                (JString (OutputFoldername @ ''/'' @ AppName @ ''_output_data.csv''));
          j = set_key j ''output_pareto_file''
                (JString (OutputFoldername @ ''/'' @ AppName @ ''_output_pareto.csv''));
          j = set_key j ''output_image''
                (set_key JNull ''output_image_pdf_file''
                   (JString (OutputFoldername @ ''_'' @ AppName @ ''_output_image.pdf'')))
      in set_key j ''design_of_experiment''
           (set_key (set_key JNull ''doe_type'' (JString ''standard latin hypercube''))
              ''number_of_samples'' (JInt NumDSERandomSamples)))"

text \<open>
  The check of the output directory, which \<^verbatim>\<open>createjson\<close> (lines 81 to 89) and \<^verbatim>\<open>main\<close>
  (lines 220 to 228) both make.
\<close>

definition output_directory :: "world \<Rightarrow> string \<Rightarrow> error + unit" where
  "output_directory w OutputDir =
     (if dir_exists w then Inr ()
      else
        (case create_directory w of
           Created \<Rightarrow> Inr ()
         | NotCreated \<Rightarrow> fatalError (''Unable to create Directory: '' @ OutputDir)
         | CreateThrows \<Rightarrow> Inl (Uncaught FilesystemError)))"

text \<open>\<^verbatim>\<open>createjson\<close> returns the name of the file; the model adds what it wrote there.\<close>

definition createjson ::
  "world \<Rightarrow> (ParamType \<Rightarrow> string) \<Rightarrow> string \<Rightarrow> string \<Rightarrow> int \<Rightarrow> int \<Rightarrow> bool
     \<Rightarrow> HMInputParam list \<Rightarrow> string list \<Rightarrow> error + (string \<times> json)" where
  "createjson w getTypeAsString AppName OutputFoldername NumIterations NumDSERandomSamples
       Pred Params Objs =
     (let CurrentDir = current_path w;
          OutputDir = CurrentDir @ ''/'' @ OutputFoldername @ ''/''
      in case output_directory w OutputDir of
           Inl e \<Rightarrow> Inl e
         | Inr _ \<Rightarrow>
           (case input_parameters getTypeAsString Params
                   (scenario_head CurrentDir AppName OutputFoldername NumIterations
                      NumDSERandomSamples Pred Objs) of
              Inl e \<Rightarrow> Inl e
            | Inr HMScenario \<Rightarrow>
                let JSonFileNameStr =
                      CurrentDir @ ''/'' @ OutputFoldername @ ''/'' @ AppName @ ''_scenario.json''
                in if \<not> file_opens w then fatalError (''Unable to open file: '' @ JSonFileNameStr)
                   else Inr (JSonFileNameStr, HMScenario)))"

subsection \<open>\<^verbatim>\<open>main\<close>\<close>

text \<open>
  What a run leaves behind: the command lines it launched, the files it wrote, and the
  session with the optimizer as it stood when the process ended (\<open>None\<close> when the
  process never opened one).
\<close>

record report =
  commands :: "string list"
  files :: "(string \<times> json) list"
  session :: "run option"

definition nothing_done :: report where
  "nothing_done = \<lparr>commands = [], files = [], session = None\<rparr>"

text \<open>
  \<^verbatim>\<open>popen2\<close> (lines 29 to 59) makes two pipes and forks; the child runs
  \<^verbatim>\<open>/bin/sh -c cmdline\<close> with the pipes as its standard input and output. The model
  returns the result of the call and the command line of the child, \<open>None\<close> when there is
  no child.
\<close>

definition popen2 :: "world \<Rightarrow> string \<Rightarrow> int \<times> string option" where
  "popen2 w cmdline =
     (if \<not> pipe_ok w then (- 1, None)
      else if \<not> fork_ok w then (- 1, None)
      else (0, Some cmdline))"

text \<open>
  \<^verbatim>\<open>main\<close>, with the settings it fixes. The directory that \<^verbatim>\<open>main\<close> found or created
  exists when \<^verbatim>\<open>createjson\<close> asks again. \<^verbatim>\<open>HYPERMAPPER_HOME\<close> is set where the command
  lines are built, the check of line 198 having passed. \<^verbatim>\<open>main\<close> does not look at what
  \<^verbatim>\<open>popen2\<close> returns: after a failure it goes on with descriptors that were never set.
  The second command, which prints the Pareto front, is recorded and not followed.
\<close>

definition main :: "(ParamType \<Rightarrow> string) \<Rightarrow> nat \<Rightarrow> world \<Rightarrow> (outcome \<times> report) option" where
  "main getTypeAsString fuel w =
     (if getenv w ''HYPERMAPPER_HOME'' = None \<or> getenv w ''PYTHONPATH'' = None
      then Some (Failed (Fatal (''Environment variables are not set!\<newline>'' @
                   ''Please set HYPERMAPPER_HOME and PYTHONPATH before running this '')),
                 nothing_done)
      else
        let OutputFoldername = ''outdata'';
            AppName = ''cpp_chakong_haimes'';
            NumIterations = 20;
            NumSamples = 10;
            Pred = True;
            Objs = [''f1_value'', ''f2_value''];
            CurrentDir = current_path w;
            OutputDir = CurrentDir @ ''/'' @ OutputFoldername @ ''/''
        in case output_directory w OutputDir of
             Inl e \<Rightarrow> Some (Failed e, nothing_done)
           | Inr _ \<Rightarrow>
             (case collectInputParams (stale_x0 w) (stale_x1 w) of
                (Params, nParams) \<Rightarrow>
                  (case createjson (w\<lparr>dir_exists := True\<rparr>) getTypeAsString AppName
                          OutputFoldername NumIterations NumSamples Pred Params Objs of
                     Inl e \<Rightarrow> Some (Failed e, nothing_done)
                   | Inr (JSonFileNameStr, HMScenario) \<Rightarrow>
                       let cmd = ''python3 '' @ the (getenv w ''HYPERMAPPER_HOME'') @
                                 ''/scripts/hypermapper.py'' @ '' '' @ JSonFileNameStr;
                           cmdPareto = ''python3 '' @ the (getenv w ''HYPERMAPPER_HOME'') @
                                 ''/scripts/compute_pareto.py'' @ '' '' @ JSonFileNameStr;
                           written = nothing_done\<lparr>files := [(JSonFileNameStr, HMScenario)]\<rparr>
                       in case popen2 w cmd of
                            (rc, None) \<Rightarrow> Some (Failed (Undefined BadDescriptor), written)
                          | (rc, Some child) \<Rightarrow>
                              (case hm_loop fuel
                                      \<lparr>numParams = nParams, Objectives = Objs, Predictor = Pred\<rparr>
                                      \<lparr>instream = child_stdout w, buffer = stale_buffer w,
                                       InParams = Params, calls = [], outstream = []\<rparr> of
                                 None \<Rightarrow> None
                               | Some (Failed e, s) \<Rightarrow>
                                   Some (Failed e,
                                     written\<lparr>commands := [child], session := Some s\<rparr>)
                               | Some (Completed, s) \<Rightarrow>
                                   Some (Completed,
                                     written\<lparr>commands := [child, cmdPareto],
                                       session := Some s\<rparr>)))))"

subsection \<open>Notions used to state the properties\<close>

text \<open>
  The columns of a line as both loops of \<^verbatim>\<open>main\<close> scan it (lines 281, 282 and 292;
  lines 307, 308 and 312): the text from \<open>pos\<close> up to the next comma or newline, or all
  the rest when there is none, in which case the scan starts again at the beginning of
  the line. \<open>columns n line 0\<close> are the first \<open>n\<close> columns.
\<close>

definition token :: "string \<Rightarrow> nat \<Rightarrow> string" where
  "token line pos =
     (case find_first_of line '',\<newline>'' pos of
        None \<Rightarrow> drop pos line
      | Some i \<Rightarrow> take (i - pos) (drop pos line))"

fun columns :: "nat \<Rightarrow> string \<Rightarrow> nat \<Rightarrow> string list" where
  "columns 0 line pos = []"
| "columns (Suc n) line pos =
     token line pos # columns n line (size_plus1 (find_first_of line '',\<newline>'' pos))"

text \<open>What the row loop appends to the response for a line: each column and a comma.\<close>

definition echo :: "nat \<Rightarrow> string \<Rightarrow> string" where
  "echo n line = concat (map (\<lambda>t. t @ '','') (columns n line 0))"




text \<open>What \<^verbatim>\<open>createjson\<close> stores under \<^verbatim>\<open>input_parameters\<close> for one parameter (lines 121 to 128).\<close>

definition param_json :: "(ParamType \<Rightarrow> string) \<Rightarrow> HMInputParam \<Rightarrow> json" where
  "param_json getTypeAsString p =
     JObject [(''parameter_type'', JString (getTypeAsString (getType p))),
              (''values'', JArray (map JInt (getRange p)))]"

subsection \<open>Example inputs\<close>

text \<open>
  The settings of \<^verbatim>\<open>main\<close>, a session on a child that writes the given bytes, a world
  in which both environment variables are set to the empty string and the optimizer ends
  at once, and names for the parameter kinds to stand for \<^verbatim>\<open>getTypeAsString\<close>.
\<close>

definition settings0 :: settings where
  "settings0 = \<lparr>numParams = 2, Objectives = [''f1_value'', ''f2_value''], Predictor = True\<rparr>"

definition session0 :: "string \<Rightarrow> run" where
  "session0 bytes =
     \<lparr>instream = bytes, buffer = [], InParams = fst (collectInputParams 0 0), calls = [],
      outstream = []\<rparr>"

definition world0 :: world where
  "world0 = \<lparr>getenv = [''HYPERMAPPER_HOME'' \<mapsto> [], ''PYTHONPATH'' \<mapsto> []],
     current_path = ''/tmp'', dir_exists = True, create_directory = NotCreated,
     file_opens = True,
     pipe_ok = True, fork_ok = True, child_stdout = ''End of HyperMapper\<newline>'', stale_buffer = [],
     stale_x0 = 0, stale_x1 = 0\<rparr>"

definition type_names :: "ParamType \<Rightarrow> string" where
  "type_names t =
     (case t of Real \<Rightarrow> ''real'' | Integer \<Rightarrow> ''integer'' | Ordinal \<Rightarrow> ''ordinal''
      | Categorical \<Rightarrow> ''categorical'')"

section \<open>Properties\<close>

subsection \<open>The reference objective\<close>

lemma collectInputParams_eq:
  "collectInputParams v0 v1 =
     ([\<lparr>getKey = ''x0'', getType = Integer, getRange = [- 20, 20], getVal = v0\<rparr>,
       \<lparr>getKey = ''x1'', getType = Integer, getRange = [- 20, 20], getVal = v1\<rparr>], 2)"
  by (simp add: collectInputParams_def new_HMInputParam_def setRange_def Let_def)

lemma square_bounded:
  fixes a k :: int
  assumes "- k \<le> a" "a \<le> k"
  shows "a * a \<le> k * k"
proof -
  have "\<bar>a\<bar> \<le> k" using assms by simp
  then have "\<bar>a\<bar> * \<bar>a\<bar> \<le> k * k" by (intro mult_mono) simp_all
  then show ?thesis by simp
qed

lemma objective_terms_fit:
  assumes "\<bar>x1\<bar> \<le> 32000" "\<bar>x2\<bar> \<le> 32000"
  shows "list_all fits_int (objective_terms x1 x2)"
proof -
  have range: "- 32000 \<le> x1" "x1 \<le> 32000" "- 32000 \<le> x2" "x2 \<le> 32000"
    using assms by simp_all
  have lower: "0 \<le> (x1 - 2) * (x1 - 2)" "0 \<le> (x2 - 1) * (x2 - 1)" "0 \<le> x1 * x1" "0 \<le> x2 * x2"
    by simp_all
  have u1: "(x1 - 2) * (x1 - 2) \<le> 1024128004"
    using range square_bounded [of 32002 "x1 - 2"] by simp
  have u2: "(x2 - 1) * (x2 - 1) \<le> 1024064001"
    using range square_bounded [of 32001 "x2 - 1"] by simp
  have u3: "x1 * x1 \<le> 1024000000"
    using range square_bounded [of 32000 x1] by simp
  have u4: "x2 * x2 \<le> 1024000000"
    using range square_bounded [of 32000 x2] by simp
  show ?thesis
    unfolding objective_terms_def fits_int_def INT_MIN_def INT_MAX_def list.pred_inject
    by (insert lower u1 u2 u3 u4 range, intro conjI; (linarith | simp))
qed

text \<open>
  Claim C1, as the code has it. While the arithmetic stays inside the 32-bit range, which
  it does for values of magnitude up to 32000 and so on the configured domain from -20 to
  20, \<^verbatim>\<open>calculateObjective\<close> returns \<open>f1 = 2 + (x1-2)\<^sup>2 + (x2-1)\<^sup>2\<close>,
  \<open>f2 = 9*x1 - (x2-1)\<^sup>2\<close> and the flag \<open>x1\<^sup>2 + x2\<^sup>2 \<le> 255 \<and> x1 - 3*x2 + 10 \<le> 0\<close>, where
  \<open>x1\<close> and \<open>x2\<close> are the values of the first and the second parameter. At \<open>x1 = 2\<close>,
  \<open>x2 = 1\<close> this is \<open>f1 = 2\<close>, \<open>f2 = 18\<close> and the flag false, since \<open>2 - 3 + 10 = 9\<close> is
  positive: the spec's example has the flag true.
\<close>

theorem calculateObjective_formula:
  assumes "2 \<le> length InputParams"
    and "\<bar>getVal (InputParams ! 0)\<bar> \<le> 32000"
    and "\<bar>getVal (InputParams ! 1)\<bar> \<le> 32000"
  shows "calculateObjective InputParams =
     Inr \<lparr>f1_value = 2 + (getVal (InputParams ! 0) - 2)\<^sup>2 + (getVal (InputParams ! 1) - 1)\<^sup>2,
           f2_value = 9 * getVal (InputParams ! 0) - (getVal (InputParams ! 1) - 1)\<^sup>2,
           valid = ((getVal (InputParams ! 0))\<^sup>2 + (getVal (InputParams ! 1))\<^sup>2 \<le> 255 \<and>
                    getVal (InputParams ! 0) - 3 * getVal (InputParams ! 1) + 10 \<le> 0)\<rparr>"
  using assms objective_terms_fit [OF assms(2,3)]
  by (simp add: calculateObjective_def power2_eq_square Let_def)

theorem calculateObjective_formula_witness:
  "calculateObjective
     [\<lparr>getKey = ''x0'', getType = Integer, getRange = [- 20, 20], getVal = 2\<rparr>,
      \<lparr>getKey = ''x1'', getType = Integer, getRange = [- 20, 20], getVal = 1\<rparr>] =
     Inr \<lparr>f1_value = 2, f2_value = 18, valid = False\<rparr> \<and>
   calculateObjective
     [\<lparr>getKey = ''x0'', getType = Integer, getRange = [- 20, 20], getVal = - 3\<rparr>,
      \<lparr>getKey = ''x1'', getType = Integer, getRange = [- 20, 20], getVal = 4\<rparr>] =
     Inr \<lparr>f1_value = 36, f2_value = - 36, valid = True\<rparr>"
  using
    calculateObjective_formula
      [of "[\<lparr>getKey = ''x0'', getType = Integer, getRange = [- 20, 20], getVal = 2\<rparr>,
            \<lparr>getKey = ''x1'', getType = Integer, getRange = [- 20, 20], getVal = 1\<rparr>]"]
    calculateObjective_formula
      [of "[\<lparr>getKey = ''x0'', getType = Integer, getRange = [- 20, 20], getVal = - 3\<rparr>,
            \<lparr>getKey = ''x1'', getType = Integer, getRange = [- 20, 20], getVal = 4\<rparr>]"]
  by simp

theorem calculateObjective_at_2_1:
  "calculateObjective
     [\<lparr>getKey = ''x0'', getType = Integer, getRange = [- 20, 20], getVal = 2\<rparr>,
      \<lparr>getKey = ''x1'', getType = Integer, getRange = [- 20, 20], getVal = 1\<rparr>] =
     Inr \<lparr>f1_value = 2, f2_value = 18, valid = False\<rparr> \<and>
   calculateObjective
     [\<lparr>getKey = ''x0'', getType = Integer, getRange = [- 20, 20], getVal = 2\<rparr>,
      \<lparr>getKey = ''x1'', getType = Integer, getRange = [- 20, 20], getVal = 1\<rparr>] \<noteq>
     Inr \<lparr>f1_value = 2, f2_value = 18, valid = True\<rparr>"
  by (simp add: calculateObjective_def objective_terms_def fits_int_def INT_MIN_def INT_MAX_def)

subsection \<open>Setting a value (the spec's \<^verbatim>\<open>setValue\<close>)\<close>

text \<open>
  Claim C7. For a parameter with the interval domain \<open>[lo, hi]\<close>, \<open>setVal\<close> accepts every
  value \<open>x\<close> with \<open>lo \<le> x \<le> hi\<close> and rejects \<open>lo - 1\<close> and \<open>hi + 1\<close> with
  \<open>DomainViolation\<close>.
\<close>

theorem setVal_interval:
  assumes "getType p = Real \<or> getType p = Integer" and "getRange p = [lo, hi]"
  shows "(lo \<le> x \<and> x \<le> hi \<longrightarrow> setVal p x = Inr (p\<lparr>getVal := x\<rparr>)) \<and>
         setVal p (lo - 1) = Inl (Uncaught DomainViolation) \<and>
         setVal p (hi + 1) = Inl (Uncaught DomainViolation)"
  using assms by (auto simp: setVal_def in_domain_def)

theorem setVal_interval_witness:
  "getType (hd (fst (collectInputParams 0 0))) = Integer \<and>
   getRange (hd (fst (collectInputParams 0 0))) = [- 20, 20] \<and>
   setVal (hd (fst (collectInputParams 0 0))) 20 =
     Inr \<lparr>getKey = ''x0'', getType = Integer, getRange = [- 20, 20], getVal = 20\<rparr> \<and>
   setVal (hd (fst (collectInputParams 0 0))) (- 21) = Inl (Uncaught DomainViolation) \<and>
   setVal (hd (fst (collectInputParams 0 0))) 21 = Inl (Uncaught DomainViolation)"
  using setVal_interval [of "hd (fst (collectInputParams 0 0))" "- 20" 20 20]
  by (simp add: collectInputParams_eq)


subsection \<open>The scenario file\<close>

lemma map_of_put: "map_of (put k v kvs) k' = (if k' = k then Some v else map_of kvs k')"
  by (induction kvs) auto

lemma at_key_set_key: "at_key (set_key j k v) k' = (if k' = k then v else at_key j k')"
  by (cases j) (simp_all add: at_key_def set_key_def map_of_put)

lemma find_app:
  "find P (xs @ ys) = (case find P xs of None \<Rightarrow> find P ys | Some x \<Rightarrow> Some x)"
  by (induction xs) simp_all

lemma input_parameters_Real:
  "\<exists>p\<in>set Params. getType p = Real \<Longrightarrow>
   input_parameters tas Params j = Inl (Fatal ''Only Ordinal and Categorical handled!'')"
proof (induction Params arbitrary: j)
  case Nil
  then show ?case by simp
next
  case (Cons p ps)
  then show ?case by (cases "getType p") (simp_all add: fatalError_def)
qed

lemma input_parameters_Inr:
  assumes "input_parameters tas Params j = Inr j'"
  shows "(\<forall>p\<in>set Params. getType p \<noteq> Real) \<and>
         (\<forall>k. at_key (at_key j' ''input_parameters'') k =
            (case find (\<lambda>p. getKey p = k) (rev Params) of
               None \<Rightarrow> at_key (at_key j ''input_parameters'') k
             | Some p \<Rightarrow> param_json tas p))"
  using assms
proof (induction Params arbitrary: j)
  case Nil
  then show ?case by simp
next
  case (Cons p ps)
  let ?j1 = "set_key j ''input_parameters''
               (set_key (at_key j ''input_parameters'') (getKey p)
                  (set_key (set_key JNull ''parameter_type'' (JString (tas (getType p))))
                     ''values'' (JArray (map JInt (getRange p)))))"
  from Cons.prems have notReal: "getType p \<noteq> Real"
    by (cases "getType p") (simp_all add: fatalError_def)
  with Cons.prems have rest: "input_parameters tas ps ?j1 = Inr j'"
    by (cases "getType p") (simp_all add: Let_def)
  have entry: "set_key (set_key JNull ''parameter_type'' (JString (tas (getType p))))
                 ''values'' (JArray (map JInt (getRange p))) = param_json tas p"
    by (simp add: set_key_def param_json_def)
  from Cons.IH [OF rest] notReal show ?case
    by (auto simp: at_key_set_key entry find_app split: option.splits)
qed


lemma input_parameters_total:
  "\<forall>p\<in>set Params. getType p \<noteq> Real \<Longrightarrow> \<exists>j'. input_parameters tas Params j = Inr j'"
proof (induction Params arbitrary: j)
  case Nil
  then show ?case by simp
next
  case (Cons p ps)
  then show ?case by (cases "getType p") (simp_all add: Let_def)
qed

lemma find_distinct_key:
  "distinct (map f xs) \<Longrightarrow> x \<in> set xs \<Longrightarrow> find (\<lambda>q. f q = f x) xs = Some x"
  by (induction xs) (auto simp: image_iff)

text \<open>
  Claim C10. When one of the parameters is of kind Real, \<^verbatim>\<open>createjson\<close> never returns
  a file: once the output directory is there (found or created), it ends the process in
  the parameter loop through \<^verbatim>\<open>fatalError\<close> with the message
  \<^verbatim>\<open>Only Ordinal and Categorical handled!\<close>, and otherwise the process has ended before
  the loop. When \<^verbatim>\<open>createjson\<close> succeeds, every parameter is Ordinal, Categorical or
  Integer, and with distinct keys each has its entry under \<^verbatim>\<open>input_parameters\<close>.
\<close>

theorem createjson_Real_fatal:
  "((\<exists>p\<in>set Params. getType p = Real) \<longrightarrow>
      (\<forall>r. createjson w tas AppName OutputFoldername n m Pred Params Objs \<noteq> Inr r) \<and>
      (dir_exists w \<or> create_directory w = Created \<longrightarrow>
         createjson w tas AppName OutputFoldername n m Pred Params Objs =
           Inl (Fatal ''Only Ordinal and Categorical handled!''))) \<and>
   (createjson w' tas' AppName' OutputFoldername' n' m' Pred' Params' Objs' = Inr (file, j) \<longrightarrow>
      (\<forall>p\<in>set Params'. getType p \<in> {Ordinal, Categorical, Integer}) \<and>
      (distinct (map getKey Params') \<longrightarrow>
         (\<forall>p\<in>set Params'. at_key (at_key j ''input_parameters'') (getKey p) = param_json tas' p)))"
proof (intro conjI impI)
  assume "\<exists>p\<in>set Params. getType p = Real"
  then show "\<forall>r. createjson w tas AppName OutputFoldername n m Pred Params Objs \<noteq> Inr r"
    by (simp add: createjson_def input_parameters_Real Let_def split: sum.splits)
next
  assume real: "\<exists>p\<in>set Params. getType p = Real"
    and dir: "dir_exists w \<or> create_directory w = Created"
  from dir have "output_directory w (current_path w @ ''/'' @ OutputFoldername @ ''/'') = Inr ()"
    by (auto simp: output_directory_def)
  then show "createjson w tas AppName OutputFoldername n m Pred Params Objs =
           Inl (Fatal ''Only Ordinal and Categorical handled!'')"
    by (simp add: createjson_def input_parameters_Real [OF real] Let_def)
next
  assume ok: "createjson w' tas' AppName' OutputFoldername' n' m' Pred' Params' Objs' = Inr (file, j)"
  then have ip: "input_parameters tas' Params'
      (scenario_head (current_path w') AppName' OutputFoldername' n' m' Pred' Objs') = Inr j"
    by (auto simp: createjson_def fatalError_def Let_def split: if_splits sum.splits)
  note facts = input_parameters_Inr [OF ip]
  show "\<forall>p\<in>set Params'. getType p \<in> {Ordinal, Categorical, Integer}"
  proof
    fix p assume "p \<in> set Params'"
    with facts have "getType p \<noteq> Real" by blast
    then show "getType p \<in> {Ordinal, Categorical, Integer}" by (cases "getType p") simp_all
  qed
  assume d: "distinct (map getKey Params')"
  show "\<forall>p\<in>set Params'. at_key (at_key j ''input_parameters'') (getKey p) = param_json tas' p"
  proof
    fix p assume p: "p \<in> set Params'"
    from d have "distinct (map getKey (rev Params'))" by (simp add: rev_map [symmetric])
    with p have "find (\<lambda>q. getKey q = getKey p) (rev Params') = Some p"
      by (intro find_distinct_key) simp_all
    with facts show "at_key (at_key j ''input_parameters'') (getKey p) = param_json tas' p"
      by simp
  qed
qed

theorem createjson_Real_fatal_witness:
  "createjson world0 type_names ''app'' ''outdata'' 20 10 True
     [\<lparr>getKey = ''x0'', getType = Integer, getRange = [- 20, 20], getVal = 0\<rparr>,
      \<lparr>getKey = ''x1'', getType = Real, getRange = [0, 1], getVal = 0\<rparr>] [''f1_value''] =
     Inl (Fatal ''Only Ordinal and Categorical handled!'') \<and>
   (\<exists>file j. createjson world0 type_names ''app'' ''outdata'' 20 10 True
        (fst (collectInputParams 0 0)) [''f1_value''] = Inr (file, j) \<and>
      at_key (at_key j ''input_parameters'') ''x1'' =
        JObject [(''parameter_type'', JString ''integer''),
                 (''values'', JArray [JInt (- 20), JInt 20])])"
proof -
  let ?bad = "[\<lparr>getKey = ''x0'', getType = Integer, getRange = [- 20, 20], getVal = 0\<rparr>,
      \<lparr>getKey = ''x1'', getType = Real, getRange = [0, 1], getVal = 0\<rparr>]"
  let ?good = "fst (collectInputParams 0 0)"
  have "\<exists>j'. input_parameters type_names ?good
          (scenario_head ''/tmp'' ''app'' ''outdata'' 20 10 True [''f1_value'']) = Inr j'"
    by (intro input_parameters_total) (simp add: collectInputParams_eq)
  then obtain j where
    ok: "createjson world0 type_names ''app'' ''outdata'' 20 10 True ?good [''f1_value''] =
           Inr (''/tmp/outdata/app_scenario.json'', j)"
    by (auto simp: createjson_def output_directory_def world0_def)
  have bad: "\<exists>p\<in>set ?bad. getType p = Real" by simp
  have good: "distinct (map getKey ?good)"
    "\<lparr>getKey = ''x1'', getType = Integer, getRange = [- 20, 20], getVal = 0\<rparr> \<in> set ?good"
    by (simp_all add: collectInputParams_eq)
  from createjson_Real_fatal [of ?bad world0 type_names "''app''" "''outdata''" 20 10 True
      "[''f1_value'']" world0 type_names "''app''" "''outdata''" 20 10 True ?good
      "[''f1_value'']" "''/tmp/outdata/app_scenario.json''" j] bad ok good
  show ?thesis
    by (auto simp: world0_def param_json_def type_names_def)
qed

subsection \<open>The environment check of \<^verbatim>\<open>main\<close>\<close>

text \<open>
  Claim C8, as the code has it. \<^verbatim>\<open>main\<close> ends at once with the fatal error about the
  environment, having launched nothing, written nothing and opened no session, exactly
  when \<^verbatim>\<open>HYPERMAPPER_HOME\<close> or \<^verbatim>\<open>PYTHONPATH\<close> is unset. A variable that is set passes
  the check whatever its value, the empty string included.
\<close>

theorem main_needs_environment:
  "main getTypeAsString fuel w =
     Some (Failed (Fatal (''Environment variables are not set!\<newline>'' @
             ''Please set HYPERMAPPER_HOME and PYTHONPATH before running this '')),
           \<lparr>commands = [], files = [], session = None\<rparr>)
   \<longleftrightarrow> getenv w ''HYPERMAPPER_HOME'' = None \<or> getenv w ''PYTHONPATH'' = None"
proof
  assume "getenv w ''HYPERMAPPER_HOME'' = None \<or> getenv w ''PYTHONPATH'' = None"
  then show "main getTypeAsString fuel w =
     Some (Failed (Fatal (''Environment variables are not set!\<newline>'' @
             ''Please set HYPERMAPPER_HOME and PYTHONPATH before running this '')),
           \<lparr>commands = [], files = [], session = None\<rparr>)"
    by (simp add: main_def nothing_done_def)
next
  assume "main getTypeAsString fuel w =
     Some (Failed (Fatal (''Environment variables are not set!\<newline>'' @
             ''Please set HYPERMAPPER_HOME and PYTHONPATH before running this '')),
           \<lparr>commands = [], files = [], session = None\<rparr>)"
  then show "getenv w ''HYPERMAPPER_HOME'' = None \<or> getenv w ''PYTHONPATH'' = None"
    by (auto simp: main_def nothing_done_def collectInputParams_eq createjson_def fatalError_def
        output_directory_def popen2_def Let_def
        split: sum.splits option.splits prod.splits outcome.splits if_splits created.splits)
qed

theorem main_needs_environment_witness:
  "getenv (world0\<lparr>getenv := [''PYTHONPATH'' \<mapsto> ''/usr/lib/python3'']\<rparr>) ''HYPERMAPPER_HOME'' = None \<and>
   main type_names 1 (world0\<lparr>getenv := [''PYTHONPATH'' \<mapsto> ''/usr/lib/python3'']\<rparr>) =
     Some (Failed (Fatal (''Environment variables are not set!\<newline>'' @
             ''Please set HYPERMAPPER_HOME and PYTHONPATH before running this '')),
           \<lparr>commands = [], files = [], session = None\<rparr>)"
  using main_needs_environment
    [of type_names 1 "world0\<lparr>getenv := [''PYTHONPATH'' \<mapsto> ''/usr/lib/python3'']\<rparr>"]
  by (simp add: world0_def)

theorem main_accepts_empty_environment:
  "getenv world0 ''HYPERMAPPER_HOME'' = Some [] \<and> getenv world0 ''PYTHONPATH'' = Some [] \<and>
   map_option (\<lambda>r. (fst r, commands (snd r))) (main type_names 1 world0) =
     Some (Completed,
       [''python3 /scripts/hypermapper.py /tmp/outdata/cpp_chakong_haimes_scenario.json'',
        ''python3 /scripts/compute_pareto.py /tmp/outdata/cpp_chakong_haimes_scenario.json''])"
  by (simp add: main_def world0_def collectInputParams_eq createjson_def fatalError_def
      output_directory_def popen2_def iteration_def fgets_def line_ready_def first_line_def
      max_buffer_def bufferStr_def Let_def)

subsection \<open>The sentinel\<close>

lemma fgets_sentinel:
  "instream s = ''End of HyperMapper\<newline>'' @ rest \<Longrightarrow>
   fgets s = Some (s\<lparr>instream := rest, buffer := ''End of HyperMapper\<newline>''\<rparr>)"
  by (simp add: fgets_def line_ready_def first_line_def max_buffer_def)

text \<open>
  Claim C5. When the next line from the optimizer is the sentinel, the loop ends cleanly
  in that round: nothing is sent and \<^verbatim>\<open>calculateObjective\<close> is not called. On the
  session as \<^verbatim>\<open>main\<close> opens it (no batch before), both logs are empty at the end.
\<close>

theorem sentinel_ends_loop:
  assumes "instream s = ''End of HyperMapper\<newline>'' @ rest"
  shows "\<exists>s'. hm_loop (Suc fuel) c s = Some (Completed, s') \<and> instream s' = rest \<and>
              calls s' = calls s \<and> outstream s' = outstream s"
  using fgets_sentinel [OF assms]
  by (simp add: iteration_def bufferStr_def)

theorem sentinel_ends_loop_witness:
  "instream (session0 ''End of HyperMapper\<newline>'') = ''End of HyperMapper\<newline>'' @ [] \<and>
   (\<exists>s'. hm_loop (Suc 0) settings0 (session0 ''End of HyperMapper\<newline>'') = Some (Completed, s') \<and>
         instream s' = [] \<and> calls s' = [] \<and> outstream s' = [])"
  using sentinel_ends_loop [of "session0 ''End of HyperMapper\<newline>''" "[]" 0 settings0]
  by (simp add: session0_def)


subsection \<open>Scanning a line\<close>

lemma first_index_less: "first_index P xs = Some i \<Longrightarrow> i < length xs"
  by (induction xs arbitrary: i) (auto split: if_splits)

lemma find_first_of_bounds:
  "find_first_of s cs pos = Some i \<Longrightarrow> pos \<le> i \<and> i < length s"
  by (auto simp: find_first_of_def dest!: first_index_less)

lemma size_plus1_le:
  "size_plus1 (find_first_of line cs pos) \<le> length line"
  by (cases "find_first_of line cs pos")
     (auto simp: size_plus1_def dest!: find_first_of_bounds)

lemma substr_token:
  "pos \<le> length line \<Longrightarrow>
   substr line pos (size_minus (find_first_of line '',\<newline>'' pos) pos) = Inr (token line pos)"
  by (simp add: substr_def token_def size_minus_def split: option.splits)

subsection \<open>The parameter-name header\<close>

lemma findHMParamByKey_le: "findHMParamByKey Params k \<le> length Params"
  by (induction Params) simp_all

lemma findHMParamByKey_end:
  "findHMParamByKey Params k = length Params \<longleftrightarrow> k \<notin> getKey ` set Params"
  using findHMParamByKey_le [of _ k]
  by (induction Params) (auto simp: param_eq_def)


lemma header_loop_unknown:
  assumes "pos \<le> length line"
    and "\<exists>t\<in>set (columns n line pos). findHMParamByKey Params t = length Params"
  shows "header_loop n p Params line pos M resp = Inl (Fatal ''Unknown parameter received!'')"
  using assms
proof (induction n arbitrary: p pos M resp)
  case 0
  then show ?case by simp
next
  case (Suc n)
  show ?case
  proof (cases "findHMParamByKey Params (token line pos) = length Params")
    case True
    with Suc.prems(1) show ?thesis by (simp add: substr_token fatalError_def)
  next
    case False
    with Suc.prems(2) have
      "\<exists>t\<in>set (columns n line (size_plus1 (find_first_of line '',\<newline>'' pos))).
         findHMParamByKey Params t = length Params"
      by auto
    from Suc.IH [OF size_plus1_le this] False Suc.prems(1) show ?thesis
      by (simp add: substr_token)
  qed
qed

lemma header_loop_Inr:
  assumes "pos \<le> length line"
    and "header_loop n p Params line pos M resp = Inr (M', resp')"
  shows "resp' = resp @ concat (map (\<lambda>t. t @ '','') (columns n line pos)) \<and>
         (\<forall>i<n. findHMParamByKey Params (columns n line pos ! i) < length Params \<and>
                 M' (p + i) = Some (findHMParamByKey Params (columns n line pos ! i))) \<and>
         (\<forall>q<p. M' q = M q)"
  using assms
proof (induction n arbitrary: p pos M resp)
  case 0
  then show ?case by simp
next
  case (Suc n)
  let ?t = "token line pos"
  let ?pos' = "size_plus1 (find_first_of line '',\<newline>'' pos)"
  let ?it = "findHMParamByKey Params ?t"
  from Suc.prems have known: "?it \<noteq> length Params"
    by (auto simp: substr_token fatalError_def split: if_splits)
  then have less: "?it < length Params"
    using findHMParamByKey_le [of Params ?t] by simp
  from Suc.prems known have rest:
    "header_loop n (Suc p) Params line ?pos' (M(p \<mapsto> ?it)) (resp @ ?t @ '','') = Inr (M', resp')"
    by (simp add: substr_token)
  note IH = Suc.IH [OF size_plus1_le rest]
  have "\<forall>i<Suc n. findHMParamByKey Params (columns (Suc n) line pos ! i) < length Params \<and>
          M' (p + i) = Some (findHMParamByKey Params (columns (Suc n) line pos ! i))"
  proof (intro allI impI)
    fix i assume "i < Suc n"
    show "findHMParamByKey Params (columns (Suc n) line pos ! i) < length Params \<and>
          M' (p + i) = Some (findHMParamByKey Params (columns (Suc n) line pos ! i))"
    proof (cases i)
      case 0
      with IH less show ?thesis by simp
    next
      case (Suc k)
      with \<open>i < Suc n\<close> IH show ?thesis by simp
    qed
  qed
  with IH show ?case by simp
qed


lemma fgets_keeps:
  assumes "fgets s = Some s1"
  shows "InParams s1 = InParams s" "calls s1 = calls s" "outstream s1 = outstream s"
  using assms by (auto simp: fgets_def Let_def split: if_splits)

lemmas eval_defs =
  fgets_def line_ready_def first_line_def max_buffer_def bufferStr_def request_count_def
  find_char_def find_first_of_def substr_def size_plus1_def size_minus_def stoi_def isspace_def
  isdigit_def digit_value_def fits_int_def INT_MIN_def INT_MAX_def token_def fatalError_def
  param_eq_def setVal_def in_domain_def calculateObjective_def objective_terms_def
  to_string_def to_string_bool_def to_string_nat.simps header_tail_def collectInputParams_eq
  numeral_2_eq_2 Let_def

text \<open>
  Claim C6, as the code has it. The header loop scans the first \<open>numParams\<close> columns of
  the parameter-name header and nothing after them. In a round whose request header is
  not the sentinel and carries a count, if one of these columns is not the key of a
  parameter, the round ends the process through \<^verbatim>\<open>fatalError\<close> with the message
  \<^verbatim>\<open>Unknown parameter received!\<close>, right after the header was read:
  \<^verbatim>\<open>calculateObjective\<close> is not called and nothing is sent in that round. A token after
  the first \<open>numParams\<close> columns is never looked at: the header \<^verbatim>\<open>x0,x1,zz\<close> is accepted,
  its row evaluated and answered.
\<close>

theorem unknown_parameter_fatal:
  assumes "fgets s = Some s1"
    and "bufferStr s1 \<noteq> ''End of HyperMapper\<newline>''"
    and "request_count (bufferStr s1) = Inr N"
    and "fgets s1 = Some s2"
    and "\<exists>t\<in>set (columns (numParams c) (bufferStr s2) 0). t \<notin> getKey ` set (InParams s)"
  shows "iteration c s = Some (Abort (Fatal ''Unknown parameter received!'') s2) \<and>
         hm_loop (Suc fuel) c s = Some (Failed (Fatal ''Unknown parameter received!''), s2) \<and>
         calls s2 = calls s \<and> outstream s2 = outstream s"
proof -
  have keep: "InParams s2 = InParams s" "calls s2 = calls s" "outstream s2 = outstream s"
    using fgets_keeps [OF assms(1)] fgets_keeps [OF assms(4)] by simp_all
  from assms(5) have
    "\<exists>t\<in>set (columns (numParams c) (bufferStr s2) 0).
       findHMParamByKey (InParams s2) t = length (InParams s2)"
    by (simp add: findHMParamByKey_end keep)
  then have "header_loop (numParams c) 0 (InParams s2) (bufferStr s2) 0 Map.empty [] =
             Inl (Fatal ''Unknown parameter received!'')"
    by (intro header_loop_unknown) simp_all
  with assms(1-4) have
    "iteration c s = Some (Abort (Fatal ''Unknown parameter received!'') s2)"
    by (simp add: iteration_def)
  with keep show ?thesis by simp
qed

theorem unknown_parameter_fatal_witness:
  "fgets (session0 ''Request 1\<newline>x0,zz\<newline>1,2\<newline>'') =
     Some \<lparr>instream = ''x0,zz\<newline>1,2\<newline>'', buffer = ''Request 1\<newline>'',
           InParams = fst (collectInputParams 0 0), calls = [], outstream = []\<rparr> \<and>
   request_count ''Request 1\<newline>'' = Inr 1 \<and>
   columns 2 ''x0,zz\<newline>'' 0 = [''x0'', ''zz''] \<and>
   hm_loop (Suc 0) settings0 (session0 ''Request 1\<newline>x0,zz\<newline>1,2\<newline>'') =
     Some (Failed (Fatal ''Unknown parameter received!''),
           \<lparr>instream = ''1,2\<newline>'', buffer = ''x0,zz\<newline>'',
            InParams = fst (collectInputParams 0 0), calls = [], outstream = []\<rparr>)"
proof -
  let ?s = "session0 ''Request 1\<newline>x0,zz\<newline>1,2\<newline>''"
  let ?s1 = "\<lparr>instream = ''x0,zz\<newline>1,2\<newline>'', buffer = ''Request 1\<newline>'',
            InParams = fst (collectInputParams 0 0), calls = [], outstream = []\<rparr>"
  let ?s2 = "\<lparr>instream = ''1,2\<newline>'', buffer = ''x0,zz\<newline>'',
            InParams = fst (collectInputParams 0 0), calls = [], outstream = []\<rparr>"
  have 1: "fgets ?s = Some ?s1"
    by (simp add: session0_def eval_defs)
  have 2: "fgets ?s1 = Some ?s2"
    by (simp add: eval_defs)
  have a: "bufferStr ?s1 \<noteq> ''End of HyperMapper\<newline>''"
    by (simp add: eval_defs)
  have count: "request_count ''Request 1\<newline>'' = Inr 1"
    by (simp add: eval_defs)
  then have b: "request_count (bufferStr ?s1) = Inr 1"
    by (simp add: bufferStr_def)
  have cols: "columns 2 ''x0,zz\<newline>'' 0 = [''x0'', ''zz'']"
    by (simp add: eval_defs)
  then have c: "\<exists>t\<in>set (columns (numParams settings0) (bufferStr ?s2) 0).
             t \<notin> getKey ` set (InParams ?s)"
    by (simp add: settings0_def session0_def collectInputParams_eq bufferStr_def)
  from unknown_parameter_fatal [OF 1 a b 2 c, of 0] 1 count cols show ?thesis
    by simp
qed

theorem extra_header_token_ignored:
  "''zz'' \<notin> getKey ` set (fst (collectInputParams 0 0)) \<and>
   iteration settings0 (session0 ''Request 1\<newline>x0,x1,zz\<newline>1,2\<newline>'') =
     Some (Continue
       \<lparr>instream = [], buffer = ''1,2\<newline>'',
        InParams =
          [\<lparr>getKey = ''x0'', getType = Integer, getRange = [- 20, 20], getVal = 1\<rparr>,
           \<lparr>getKey = ''x1'', getType = Integer, getRange = [- 20, 20], getVal = 2\<rparr>],
        calls = [[1, 2]],
        outstream = [''x0,x1,f1_value,f2_value,Valid\<newline>1,2,4,8,0\<newline>'']\<rparr>)"
  by (simp add: iteration_def settings0_def session0_def eval_defs)


subsection \<open>A candidate row\<close>








subsection \<open>A batch\<close>














subsection \<open>The end of the stream\<close>







subsection \<open>The feasibility flag\<close>

text \<open>
  The header line of a response, in general: the columns of the parameter-name header,
  each the key of a parameter, then the objective names, then \<^verbatim>\<open>Valid\<close> when the
  predictor is on and only then.
\<close>

lemma response_header_line:
  assumes "header_loop n 0 Params line 0 Map.empty [] = Inr (M, hdr)"
  shows "hdr @ header_tail c =
           echo n line @ concat (map (\<lambda>objString. objString @ '','') (Objectives c)) @
           (if Predictor c then ''Valid'' else []) @ ''\<newline>'' \<and>
         set (columns n line 0) \<subseteq> getKey ` set Params"
proof -
  from header_loop_Inr [OF _ assms] have
    hdr: "hdr = echo n line" and
    known: "\<forall>i<n. findHMParamByKey Params (columns n line 0 ! i) < length Params"
    by (simp_all add: echo_def)
  have len: "length (columns n line pos) = n" for pos
    by (induction n arbitrary: pos) simp_all
  have "t \<in> getKey ` set Params" if "t \<in> set (columns n line 0)" for t
  proof -
    from that len obtain i where "i < n" "columns n line 0 ! i = t"
      by (metis in_set_conv_nth)
    with known have "findHMParamByKey Params t \<noteq> length Params" by auto
    then show ?thesis by (simp add: findHMParamByKey_end)
  qed
  with hdr show ?thesis by (auto simp: header_tail_def)
qed

text \<open>
  Claim C4. The header line tests \<^verbatim>\<open>Predictor\<close> before it appends \<^verbatim>\<open>Valid\<close> (lines 296
  and 297), and so does \<^verbatim>\<open>createjson\<close> (line 99); the body row appends the flag without
  the test (line 319). With the predictor off the header has no \<^verbatim>\<open>Valid\<close> column and
  the row still ends with the flag; with the predictor on the same row follows a header
  that has the column.
\<close>

theorem flag_without_predictor:
  "iteration (settings0\<lparr>Predictor := False\<rparr>) (session0 ''Request 1\<newline>x0,x1\<newline>-3,4\<newline>'') =
     Some (Continue
       \<lparr>instream = [], buffer = ''-3,4\<newline>'',
        InParams =
          [\<lparr>getKey = ''x0'', getType = Integer, getRange = [- 20, 20], getVal = - 3\<rparr>,
           \<lparr>getKey = ''x1'', getType = Integer, getRange = [- 20, 20], getVal = 4\<rparr>],
        calls = [[- 3, 4]],
        outstream = [''x0,x1,f1_value,f2_value,\<newline>-3,4,36,-36,1\<newline>'']\<rparr>) \<and>
   iteration (settings0\<lparr>Predictor := True\<rparr>) (session0 ''Request 1\<newline>x0,x1\<newline>-3,4\<newline>'') =
     Some (Continue
       \<lparr>instream = [], buffer = ''-3,4\<newline>'',
        InParams =
          [\<lparr>getKey = ''x0'', getType = Integer, getRange = [- 20, 20], getVal = - 3\<rparr>,
           \<lparr>getKey = ''x1'', getType = Integer, getRange = [- 20, 20], getVal = 4\<rparr>],
        calls = [[- 3, 4]],
        outstream = [''x0,x1,f1_value,f2_value,Valid\<newline>-3,4,36,-36,1\<newline>'']\<rparr>)"
  by (simp add: iteration_def settings0_def session0_def eval_defs)

end
